theory Spec2Isabelle
  imports Main "HOL-Library.Sublist"
begin

section \<open>The email repository of the server (src/server/src/repositories/email.repository.ts)\<close>

text \<open>
  The class \<^verbatim>\<open>EmailRepository\<close> has four entry points: \<^verbatim>\<open>verifySmtp\<close>,
  \<^verbatim>\<open>renderEmail\<close>, \<^verbatim>\<open>sendEmail\<close> and the private \<^verbatim>\<open>createTransport\<close>.
  They are embedded as HOL functions. What the TypeScript does to the outside (the calls
  on the logger, the transports made by nodemailer and the calls on them) is recorded in
  an explicit \<open>world\<close> that every function takes and returns. What the outside answers
  (whether \<^verbatim>\<open>transport.verify()\<close> resolves, what \<^verbatim>\<open>transport.sendMail\<close> returns) is
  an argument of the function, so that a theorem about all arguments is a theorem about
  every behaviour of the relay.

  The logger, nodemailer's \<^verbatim>\<open>createTransport\<close> and \<^verbatim>\<open>transport.close()\<close> are taken to
  return normally: the file calls them outside any handler of its own, and the
  collaborators are known here only by the calls made on them.

  Strings are lists of 8-bit characters. \<^verbatim>\<open>EmailImageAttachment\<close> is declared in
  src/types, outside the file; it is taken with the three fields that \<^verbatim>\<open>sendEmail\<close>
  reads.
\<close>

subsection \<open>JavaScript numbers\<close>

text \<open>
  \<^verbatim>\<open>port\<close> and \<^verbatim>\<open>errno\<close> are JavaScript numbers, that is, doubles. The file compares
  a number with \<^verbatim>\<open>465\<close> and \<^verbatim>\<open>587\<close>, prints it in a template literal and in
  \<^verbatim>\<open>JSON.stringify\<close>, and hands it on. A number is therefore one of:
  \<^item> \<open>Integer n\<close>, an integer of magnitude below \<open>2\<^sup>5\<^sup>3\<close>, which JavaScript prints
    digit by digit (\<^verbatim>\<open>-0\<close> is \<open>Integer 0\<close>: it prints as \<^verbatim>\<open>0\<close> and equals \<^verbatim>\<open>0\<close>);
  \<^item> \<open>OtherFinite s\<close>, any other finite number (a fraction, or an integer of magnitude
    \<open>2\<^sup>5\<^sup>3\<close> or more, printed with the shortest digits that read back as the same
    double), known by the text \<open>s\<close> that JavaScript prints for it;
  \<^item> \<open>NaN\<close>, \<open>PosInfinity\<close>, \<open>NegInfinity\<close>, which \<^verbatim>\<open>JSON.stringify\<close> prints as
    \<^verbatim>\<open>null\<close>.
  An integer of magnitude \<open>2\<^sup>5\<^sup>3\<close> or more is never written \<open>Integer n\<close>.
\<close>

datatype number = Integer int | OtherFinite string | NaN | PosInfinity | NegInfinity

subsection \<open>JavaScript operators used by the file\<close>

definition nullish :: "'a option \<Rightarrow> 'a \<Rightarrow> 'a" where
  \<comment> \<open>\<^verbatim>\<open>a ?? b\<close>, with \<open>None\<close> for \<^verbatim>\<open>undefined\<close>\<close>
  "nullish a b = (case a of None \<Rightarrow> b | Some v \<Rightarrow> v)"

definition truthy_boolean :: "bool option \<Rightarrow> bool" where
  \<comment> \<open>truthiness of a \<^verbatim>\<open>boolean | undefined\<close>\<close>
  "truthy_boolean b = (case b of None \<Rightarrow> False | Some v \<Rightarrow> v)"

definition truthy_string :: "string option \<Rightarrow> bool" where
  \<comment> \<open>truthiness of a \<^verbatim>\<open>string | undefined\<close>: the empty string is falsy\<close>
  "truthy_string s = (case s of None \<Rightarrow> False | Some v \<Rightarrow> v \<noteq> [])"

definition digit_char :: "nat \<Rightarrow> char" where
  "digit_char d = ''0123456789abcdef'' ! d"

fun digits :: "nat \<Rightarrow> string" where
  "digits n = (if n < 10 then [digit_char n] else digits (n div 10) @ [digit_char (n mod 10)])"

definition decimal :: "int \<Rightarrow> string" where
  "decimal n = (if n < 0 then CHR ''-'' # digits (nat (- n)) else digits (nat n))"

fun Number_toString :: "number \<Rightarrow> string" where
  "Number_toString (Integer n) = decimal n"
| "Number_toString (OtherFinite s) = s"
| "Number_toString NaN = ''NaN''"
| "Number_toString PosInfinity = ''Infinity''"
| "Number_toString NegInfinity = ''-Infinity''"

fun isFinite :: "number \<Rightarrow> bool" where
  "isFinite (Integer n) = True"
| "isFinite (OtherFinite s) = True"
| "isFinite NaN = False"
| "isFinite PosInfinity = False"
| "isFinite NegInfinity = False"

definition template_number :: "number option \<Rightarrow> string" where
  \<comment> \<open>a \<^verbatim>\<open>number | undefined\<close> inside a template literal\<close>
  "template_number n = (case n of None \<Rightarrow> ''undefined'' | Some v \<Rightarrow> Number_toString v)"

definition template_boolean :: "bool option \<Rightarrow> string" where
  \<comment> \<open>a \<^verbatim>\<open>boolean | undefined\<close> inside a template literal\<close>
  "template_boolean b =
     (case b of None \<Rightarrow> ''undefined'' | Some v \<Rightarrow> (if v then ''true'' else ''false''))"

fun join :: "string \<Rightarrow> string list \<Rightarrow> string" where
  \<comment> \<open>\<^verbatim>\<open>Array.prototype.join\<close>\<close>
  "join sep [] = []"
| "join sep [x] = x"
| "join sep (x # y # ys) = x @ sep @ join sep (y # ys)"

definition filter_Boolean :: "string option list \<Rightarrow> string list" where
  \<comment> \<open>\<^verbatim>\<open>.filter(Boolean)\<close> on an array whose entries are strings, \<^verbatim>\<open>undefined\<close> or
      \<^verbatim>\<open>false\<close>; \<open>None\<close> stands for the two falsy non-strings\<close>
  "filter_Boolean xs = map the (filter truthy_string xs)"

subsection \<open>JSON.stringify on a flat object\<close>

datatype json = JSON_undefined | JSON_boolean bool | JSON_number number | JSON_string string

definition UnicodeEscape :: "char \<Rightarrow> string" where
  "UnicodeEscape c =
     [CHR 0x5C, CHR ''u'', CHR ''0'', CHR ''0'',
      digit_char (of_char c div 16), digit_char (of_char c mod 16)]"

definition QuoteJSONChar :: "char \<Rightarrow> string" where
  "QuoteJSONChar c =
     (if c = CHR 0x08 then [CHR 0x5C, CHR ''b'']
      else if c = CHR 0x09 then [CHR 0x5C, CHR ''t'']
      else if c = CHR 0x0A then [CHR 0x5C, CHR ''n'']
      else if c = CHR 0x0C then [CHR 0x5C, CHR ''f'']
      else if c = CHR 0x0D then [CHR 0x5C, CHR ''r'']
      else if c = CHR 0x22 then [CHR 0x5C, CHR 0x22]
      else if c = CHR 0x5C then [CHR 0x5C, CHR 0x5C]
      else if (of_char c :: nat) < 32 then UnicodeEscape c
      else [c])"

definition QuoteJSONString :: "string \<Rightarrow> string" where
  "QuoteJSONString s = [CHR 0x22] @ concat (map QuoteJSONChar s) @ [CHR 0x22]"

fun SerializeJSONProperty :: "json \<Rightarrow> string option" where
  \<comment> \<open>\<open>None\<close>: the property is left out of the object\<close>
  "SerializeJSONProperty JSON_undefined = None"
| "SerializeJSONProperty (JSON_boolean b) = Some (if b then ''true'' else ''false'')"
| "SerializeJSONProperty (JSON_number n) =
     Some (if isFinite n then Number_toString n else ''null'')"
| "SerializeJSONProperty (JSON_string s) = Some (QuoteJSONString s)"

fun SerializeJSONMembers :: "(string \<times> json) list \<Rightarrow> string list" where
  "SerializeJSONMembers [] = []"
| "SerializeJSONMembers ((k, v) # kvs) =
     (case SerializeJSONProperty v of
        None \<Rightarrow> SerializeJSONMembers kvs
      | Some str \<Rightarrow> (QuoteJSONString k @ '':'' @ str) # SerializeJSONMembers kvs)"

definition JSON_stringify :: "(string \<times> json) list \<Rightarrow> string" where
  \<comment> \<open>an object literal is the list of its properties, in the order they are written\<close>
  "JSON_stringify obj = ''{'' @ join '','' (SerializeJSONMembers obj) @ ''}''"

definition json_boolean :: "bool option \<Rightarrow> json" where
  "json_boolean b = (case b of None \<Rightarrow> JSON_undefined | Some v \<Rightarrow> JSON_boolean v)"

definition json_number :: "number option \<Rightarrow> json" where
  "json_number n = (case n of None \<Rightarrow> JSON_undefined | Some v \<Rightarrow> JSON_number v)"

subsection \<open>The library side: nodemailer's options, messages and transports\<close>

record AuthOptions =
  user :: "string option"
  pass :: "string option"

record TlsOptions =
  rejectUnauthorized :: bool

record TransportOptions =
  host :: string
  port :: number
  secure :: bool
  requireTLS :: bool
  tls :: TlsOptions
  auth :: "AuthOptions option"
  connectionTimeout :: int
  greetingTimeout :: int
  socketTimeout :: int
  dnsTimeout :: int

record Attachment =
  filename :: string
  path :: string
  cid :: string

record MailOptions =
  to :: string
  from' :: string
  subject :: string
  html :: string
  text' :: string
  attachments :: "Attachment list option"

text \<open>
  A value that JavaScript throws is an instance of \<^verbatim>\<open>Error\<close> (read here through
  \<^verbatim>\<open>NodeJS.ErrnoException\<close>: message, optional code, optional errno, stack) or anything
  else, of which the code only takes \<^verbatim>\<open>String(error)\<close>: \<open>NonError s\<close> is such a value
  with \<open>s\<close> the string that \<^verbatim>\<open>String\<close> gives for it. The conversion is taken to return;
  a value whose conversion to a string throws is not modelled.
\<close>

record ErrnoException =
  message :: string
  code :: "string option"
  errno :: "number option"
  stack :: "string option"

datatype thrown = ErrorInstance ErrnoException | NonError string

datatype 'a promise = Fulfilled 'a | Rejected thrown

datatype transport_call = Verify | SendMail MailOptions | Close

record transport =
  config :: TransportOptions
  calls :: "transport_call list"

datatype logger_call = Log string | Debug string | Error string "string option"

record world =
  logger :: "logger_call list"
  transports :: "transport list"

definition logger_log :: "string \<Rightarrow> world \<Rightarrow> world" where
  "logger_log m w = w\<lparr>logger := logger w @ [Log m]\<rparr>"

definition logger_debug :: "string \<Rightarrow> world \<Rightarrow> world" where
  "logger_debug m w = w\<lparr>logger := logger w @ [Debug m]\<rparr>"

definition logger_error :: "string \<Rightarrow> string option \<Rightarrow> world \<Rightarrow> world" where
  "logger_error m st w = w\<lparr>logger := logger w @ [Error m st]\<rparr>"

definition nodemailer_createTransport :: "TransportOptions \<Rightarrow> world \<Rightarrow> nat \<times> world" where
  \<comment> \<open>a new transport; its handle is its index in the world\<close>
  "nodemailer_createTransport opts w =
     (length (transports w), w\<lparr>transports := transports w @ [\<lparr>config = opts, calls = []\<rparr>]\<rparr>)"

definition transport_call :: "nat \<Rightarrow> transport_call \<Rightarrow> world \<Rightarrow> world" where
  "transport_call h c w =
     (if h < length (transports w)
      then w\<lparr>transports := (transports w)[h := (transports w ! h)\<lparr>calls := calls (transports w ! h) @ [c]\<rparr>]\<rparr>
      else w)"

subsection \<open>The types of the file\<close>

datatype EmailTemplate = TEST_EMAIL | WELCOME | RESET_PASSWORD | ALBUM_INVITE | ALBUM_UPDATE

record BaseEmailProps =
  baseUrl :: string
  customTemplate :: "string option"

record TestEmailProps = BaseEmailProps +
  displayName :: string

record WelcomeEmailProps = BaseEmailProps +
  displayName :: string
  username :: string
  password :: "string option"

record AlbumInviteEmailProps = BaseEmailProps +
  albumName :: string
  albumId :: string
  senderName :: string
  recipientName :: string
  cid :: "string option"

record AlbumUpdateEmailProps = BaseEmailProps +
  albumName :: string
  albumId :: string
  recipientName :: string
  cid :: "string option"

text \<open>
  \<^verbatim>\<open>EmailRenderRequest\<close> is a union discriminated by \<^verbatim>\<open>template\<close>; each member
  carries \<^verbatim>\<open>data\<close> and \<^verbatim>\<open>customTemplate\<close>. The union has no member for
  \<^verbatim>\<open>EmailTemplate.RESET_PASSWORD\<close>.
\<close>

datatype EmailRenderRequest =
    TestEmailRequest TestEmailProps string
  | WelcomeRequest WelcomeEmailProps string
  | AlbumInviteRequest AlbumInviteEmailProps string
  | AlbumUpdateRequest AlbumUpdateEmailProps string

fun template :: "EmailRenderRequest \<Rightarrow> EmailTemplate" where
  "template (TestEmailRequest d c) = TEST_EMAIL"
| "template (WelcomeRequest d c) = WELCOME"
| "template (AlbumInviteRequest d c) = ALBUM_INVITE"
| "template (AlbumUpdateRequest d c) = ALBUM_UPDATE"

text \<open>
  \<^verbatim>\<open>React.createElement(TestEmail, props)\<close> and its three siblings: an element is the
  template function it names and the props it was given. The template functions
  (src/emails) and the renderer of @react-email/render are not part of the file; the
  renderer is an argument of \<open>renderEmail\<close>.
\<close>

datatype FunctionComponentElement =
    TestEmail TestEmailProps
  | WelcomeEmail WelcomeEmailProps
  | AlbumInviteEmail AlbumInviteEmailProps
  | AlbumUpdateEmail AlbumUpdateEmailProps

datatype render_options = pretty bool | plainText bool

record RenderedEmail =
  html :: string
  text' :: string

record EmailImageAttachment =
  filename :: string
  path :: string
  cid :: string

record SmtpOptions =
  host :: string
  port :: "number option"
  secure :: "bool option"
  username :: "string option"
  password :: "string option"
  ignoreCert :: "bool option"

record SendEmailOptions =
  from' :: string
  to :: string
  replyTo :: "string option"
  subject :: string
  html :: string
  text' :: string
  imageAttachments :: "EmailImageAttachment list option"
  smtp :: SmtpOptions

record 'r SendEmailResponse =
  messageId :: string
  response :: 'r

subsection \<open>createTransport\<close>

definition createTransport_options :: "SmtpOptions \<Rightarrow> TransportOptions" where
  \<comment> \<open>the object that lines 185 to 204 hand to nodemailer\<close>
  "createTransport_options options =
     (let port = nullish (port options)
                   (if truthy_boolean (secure options) then Integer 465 else Integer 587);
          secure = nullish (secure options) (port = Integer 465)
      in \<lparr> TransportOptions.host = host options,
           TransportOptions.port = port,
           TransportOptions.secure = secure,
           requireTLS = (\<not> secure \<and> port = Integer 587),
           tls = \<lparr> rejectUnauthorized = (\<not> truthy_boolean (ignoreCert options)) \<rparr>,
           auth =
             (if truthy_string (username options) \<or> truthy_string (password options)
              then Some \<lparr> user = username options, pass = password options \<rparr>
              else None),
           connectionTimeout = 10000,
           greetingTimeout = 10000,
           socketTimeout = 10000,
           dnsTimeout = 10000 \<rparr>)"

definition createTransport :: "SmtpOptions \<Rightarrow> world \<Rightarrow> nat \<times> world" where
  "createTransport options w = nodemailer_createTransport (createTransport_options options) w"

subsection \<open>verifySmtp\<close>

definition safeOpts :: "SmtpOptions \<Rightarrow> (string \<times> json) list" where
  "safeOpts options =
     [(''host'', JSON_string (host options)),
      (''port'', json_number (port options)),
      (''secure'', json_boolean (secure options)),
      (''username'', JSON_string (nullish (username options) ''(none)'')),
      (''password'',
         JSON_string (if truthy_string (password options) then ''********'' else ''(none)'')),
      (''ignoreCert'', json_boolean (ignoreCert options))]"

definition new_Error :: "string \<Rightarrow> string option \<Rightarrow> ErrnoException" where
  \<comment> \<open>\<^verbatim>\<open>new Error(m)\<close>; the second argument is the stack that the runtime captures\<close>
  "new_Error m st = \<lparr> message = m, code = None, errno = None, stack = st \<rparr>"

definition as_Error :: "thrown \<Rightarrow> string option \<Rightarrow> ErrnoException" where
  \<comment> \<open>line 125: \<^verbatim>\<open>error instanceof Error ? error : new Error(String(error))\<close>\<close>
  "as_Error error captured_stack =
     (case error of
        ErrorInstance e \<Rightarrow> e
      | NonError s \<Rightarrow> new_Error s captured_stack)"

definition details_parts :: "ErrnoException \<Rightarrow> string option list" where
  \<comment> \<open>the array literal of lines 126 to 130, before \<^verbatim>\<open>.filter(Boolean)\<close>\<close>
  "details_parts err =
     [Some (message err),
      (case code err of
         None \<Rightarrow> None
       | Some c \<Rightarrow> (if c \<noteq> [] then Some (''code='' @ c) else Some c)),
      (case errno err of
         None \<Rightarrow> None
       | Some n \<Rightarrow> Some (''errno='' @ Number_toString n))]"

definition details :: "ErrnoException \<Rightarrow> string" where
  "details err = join '', '' (filter_Boolean (details_parts err))"

text \<open>
  \<open>verify_result\<close> is what \<^verbatim>\<open>await transport.verify()\<close> does: \<open>None\<close> when the
  promise resolves, \<open>Some error\<close> when it rejects with \<open>error\<close>. \<open>captured_stack\<close> is
  the stack of the \<^verbatim>\<open>Error\<close> made at line 125 when the value thrown is not one. The
  result is \<open>Inr True\<close> for \<^verbatim>\<open>return true\<close> and \<open>Inl error\<close> for \<^verbatim>\<open>throw error\<close>; the
  \<^verbatim>\<open>finally\<close> block runs after either.
\<close>

definition verifySmtp ::
  "thrown option \<Rightarrow> string option \<Rightarrow> SmtpOptions \<Rightarrow> world \<Rightarrow> (thrown + bool) \<times> world" where
  "verifySmtp verify_result captured_stack options w0 =
     (let w1 = logger_log (''Verifying SMTP connection to '' @ host options @ '':''
                 @ template_number (port options)
                 @ '' (secure='' @ template_boolean (secure options) @ '')'') w0;
          w2 = logger_debug (''SMTP options: '' @ JSON_stringify (safeOpts options)) w1;
          (transport, w3) = createTransport options w2;
          w4 = transport_call transport Verify w3;
          (completion, w5) =
            (case verify_result of
               None \<Rightarrow>
                 (Inr True,
                  logger_log (''SMTP verification successful for '' @ host options @ '':''
                    @ template_number (port options)) w4)
             | Some error \<Rightarrow>
                 (let err = as_Error error captured_stack
                  in (Inl error,
                      logger_error (''SMTP verification failed for '' @ host options @ '':''
                        @ template_number (port options) @ '': '' @ details err)
                        (stack err) w4)))
      in (completion, transport_call transport Close w5))"

subsection \<open>renderEmail\<close>

fun render :: "EmailRenderRequest \<Rightarrow> FunctionComponentElement" where
  "render (TestEmailRequest data customTemplate') =
     TestEmail (data\<lparr>customTemplate := Some customTemplate'\<rparr>)"
| "render (WelcomeRequest data customTemplate') =
     WelcomeEmail (data\<lparr>customTemplate := Some customTemplate'\<rparr>)"
| "render (AlbumInviteRequest data customTemplate') =
     AlbumInviteEmail (data\<lparr>customTemplate := Some customTemplate'\<rparr>)"
| "render (AlbumUpdateRequest data customTemplate') =
     AlbumUpdateEmail (data\<lparr>customTemplate := Some customTemplate'\<rparr>)"

definition renderEmail ::
  "(FunctionComponentElement \<Rightarrow> render_options \<Rightarrow> thrown + string) \<Rightarrow> EmailRenderRequest
     \<Rightarrow> thrown + RenderedEmail" where
  "renderEmail react_email_render request =
     (let component = render request
      in case react_email_render component (pretty False) of
           Inl e \<Rightarrow> Inl e
         | Inr html' \<Rightarrow>
             (case react_email_render component (plainText True) of
                Inl e \<Rightarrow> Inl e
              | Inr text \<Rightarrow> Inr \<lparr> RenderedEmail.html = html', RenderedEmail.text' = text \<rparr>))"

subsection \<open>sendEmail\<close>

text \<open>
  \<open>sendMail_result\<close> is what the call \<^verbatim>\<open>transport.sendMail(...)\<close> does: it throws
  (\<open>Inl\<close>) or it returns a promise (\<open>Inr\<close>), given with the way it will settle.
  \<^verbatim>\<open>sendEmail\<close> is not an \<^verbatim>\<open>async\<close> function and does not await: it returns the
  promise of \<^verbatim>\<open>sendMail\<close> itself, after the \<^verbatim>\<open>finally\<close> block has run.
\<close>

definition sendEmail ::
  "(thrown + 'r SendEmailResponse promise) \<Rightarrow> SendEmailOptions \<Rightarrow> world
     \<Rightarrow> (thrown + 'r SendEmailResponse promise) \<times> world" where
  "sendEmail sendMail_result opts w0 =
     (let w1 = logger_debug (''Sending email to '' @ to opts @ '' with subject: '' @ subject opts) w0;
          (transport, w2) = createTransport (smtp opts) w1;
          attachments =
            map_option
              (map (\<lambda>attachment. \<lparr> Attachment.filename = filename attachment,
                                   Attachment.path = path attachment,
                                   Attachment.cid = cid attachment \<rparr>))
              (imageAttachments opts);
          w3 = transport_call transport
                 (SendMail \<lparr> MailOptions.to = to opts,
                              MailOptions.from' = from' opts,
                              MailOptions.subject = subject opts,
                              MailOptions.html = html opts,
                              MailOptions.text' = text' opts,
                              MailOptions.attachments = attachments \<rparr>) w2
      in (sendMail_result, transport_call transport Close w3))"

section \<open>Properties\<close>

subsection \<open>What each function does to the world\<close>

lemma transport_call_new:
  "transports w = ts @ [t] \<Longrightarrow>
   transport_call (length ts) c w = w\<lparr>transports := ts @ [t\<lparr>calls := calls t @ [c]\<rparr>]\<rparr>"
  by (simp add: transport_call_def)

lemma transports_logger_simps:
  "transports (logger_log m w) = transports w"
  "transports (logger_debug m w) = transports w"
  "transports (logger_error m st w) = transports w"
  "logger (logger_log m w) = logger w @ [Log m]"
  "logger (logger_debug m w) = logger w @ [Debug m]"
  "logger (logger_error m st w) = logger w @ [Error m st]"
  by (simp_all add: logger_log_def logger_debug_def logger_error_def)

lemma createTransport_world:
  "createTransport options w =
     (length (transports w),
      w\<lparr>transports := transports w @ [\<lparr>config = createTransport_options options, calls = []\<rparr>]\<rparr>)"
  by (simp add: createTransport_def nodemailer_createTransport_def)

lemma verifySmtp_transports:
  "transports (snd (verifySmtp verify_result captured_stack options w)) =
     transports w @ [\<lparr>config = createTransport_options options, calls = [Verify, Close]\<rparr>]"
  by (cases verify_result)
     (simp_all add: verifySmtp_def createTransport_world transport_call_def
        transports_logger_simps Let_def)

lemma sendEmail_transports:
  "transports (snd (sendEmail sendMail_result opts w)) =
     transports w @
       [\<lparr>config = createTransport_options (smtp opts),
         calls =
           [SendMail \<lparr> MailOptions.to = to opts,
                       MailOptions.from' = from' opts,
                       MailOptions.subject = subject opts,
                       MailOptions.html = html opts,
                       MailOptions.text' = text' opts,
                       MailOptions.attachments =
                         map_option
                           (map (\<lambda>attachment. \<lparr> Attachment.filename = filename attachment,
                                   Attachment.path = path attachment,
                                   Attachment.cid = cid attachment \<rparr>))
                           (imageAttachments opts) \<rparr>,
            Close]\<rparr>]"
  by (simp add: sendEmail_def createTransport_world transport_call_def
        transports_logger_simps Let_def)

lemma verifySmtp_logger:
  "logger (snd (verifySmtp verify_result captured_stack options w)) =
     logger w @
       [Log (''Verifying SMTP connection to '' @ host options @ '':''
               @ template_number (port options)
               @ '' (secure='' @ template_boolean (secure options) @ '')''),
        Debug (''SMTP options: '' @ JSON_stringify (safeOpts options)),
        (case verify_result of
           None \<Rightarrow>
             Log (''SMTP verification successful for '' @ host options @ '':''
                    @ template_number (port options))
         | Some error \<Rightarrow>
             Error (''SMTP verification failed for '' @ host options @ '':''
                      @ template_number (port options) @ '': ''
                      @ details (as_Error error captured_stack))
                   (stack (as_Error error captured_stack)))]"
  by (cases verify_result)
     (simp_all add: verifySmtp_def createTransport_world transport_call_def
        transports_logger_simps Let_def)

lemma verifySmtp_completion:
  "fst (verifySmtp verify_result captured_stack options w) =
     (case verify_result of None \<Rightarrow> Inr True | Some error \<Rightarrow> Inl error)"
  by (cases verify_result)
     (simp_all add: verifySmtp_def createTransport_world Let_def)

lemma sublist_join: "x \<in> set xs \<Longrightarrow> sublist x (join sep xs)"
proof (induction sep xs rule: join.induct)
  case (1 sep)
  then show ?case by simp
next
  case (2 sep y)
  then show ?case by simp
next
  case (3 sep y z zs)
  show ?case
  proof (cases "x = y")
    case True
    then show ?thesis by simp
  next
    case False
    with 3 have "sublist x (join sep (z # zs))" by simp
    then have "sublist x ((y @ sep) @ join sep (z # zs))"
      by (rule sublist_order.order_trans) (rule sublist_append_leftI)
    then show ?thesis by simp
  qed
qed

lemma safeOpts_password:
  "p \<noteq> [] \<Longrightarrow> safeOpts (options\<lparr>password := Some p\<rparr>) =
     [(''host'', JSON_string (host options)),
      (''port'', json_number (port options)),
      (''secure'', json_boolean (secure options)),
      (''username'', JSON_string (nullish (username options) ''(none)'')),
      (''password'', JSON_string ''********''),
      (''ignoreCert'', json_boolean (ignoreCert options))]"
  by (simp add: safeOpts_def truthy_string_def)

lemma details_carries_message: "sublist (message err) (details err)"
proof (cases "message err = []")
  case True
  then show ?thesis by simp
next
  case False
  then have "message err \<in> set (filter_Boolean (details_parts err))"
    by (simp add: filter_Boolean_def details_parts_def truthy_string_def)
  then show ?thesis unfolding details_def by (rule sublist_join)
qed

lemma details_carries_code:
  assumes "code err = Some c" and "c \<noteq> []"
  shows "sublist (''code='' @ c) (details err)"
proof -
  from assms have "(''code='' @ c) \<in> set (filter_Boolean (details_parts err))"
    by (simp add: filter_Boolean_def details_parts_def truthy_string_def)
  then show ?thesis unfolding details_def by (rule sublist_join)
qed

lemma details_carries_errno:
  assumes "errno err = Some n"
  shows "sublist (''errno='' @ Number_toString n) (details err)"
proof -
  from assms have "(''errno='' @ Number_toString n) \<in> set (filter_Boolean (details_parts err))"
    by (simp add: filter_Boolean_def details_parts_def truthy_string_def)
  then show ?thesis unfolding details_def by (rule sublist_join)
qed

subsection \<open>The options handed to nodemailer\<close>

lemma createTransport_options_port:
  "TransportOptions.port (createTransport_options options) =
     (case port options of
        Some p \<Rightarrow> p
      | None \<Rightarrow> (if secure options = Some True then Integer 465 else Integer 587))"
  by (simp add: createTransport_options_def nullish_def truthy_boolean_def Let_def
        split: option.splits)

lemma createTransport_options_secure:
  "TransportOptions.secure (createTransport_options options) =
     (case secure options of
        Some s \<Rightarrow> s
      | None \<Rightarrow> TransportOptions.port (createTransport_options options) = Integer 465)"
  by (simp add: createTransport_options_def nullish_def Let_def split: option.splits)

lemma createTransport_options_requireTLS:
  "requireTLS (createTransport_options options) =
     (\<not> TransportOptions.secure (createTransport_options options)
      \<and> TransportOptions.port (createTransport_options options) = Integer 587)"
  by (simp add: createTransport_options_def Let_def)

text \<open>
  Claim C1. For every \<^verbatim>\<open>SmtpOptions\<close>, the options that \<^verbatim>\<open>createTransport\<close> hands to
  nodemailer satisfy: port is \<^verbatim>\<open>options.port ?? (options.secure == true ? 465 : 587)\<close>;
  secure (implicit TLS) is \<^verbatim>\<open>options.secure ?? (port == 465)\<close>; requireTLS (STARTTLS)
  is \<^verbatim>\<open>!secure && port == 587\<close>. With port unset and secure unset or false the result
  is port 587, no implicit TLS, STARTTLS required; with secure true and port unset it is
  port 465, implicit TLS, no STARTTLS; a port or a secure flag that is given is the one
  that is used.
\<close>

theorem createTransport_tls_resolution:
  fixes options :: SmtpOptions
  shows "TransportOptions.port (createTransport_options options) =
           nullish (port options) (if secure options = Some True then Integer 465 else Integer 587)
       \<and> TransportOptions.secure (createTransport_options options) =
           nullish (secure options) (TransportOptions.port (createTransport_options options) = Integer 465)
       \<and> requireTLS (createTransport_options options) =
           (\<not> TransportOptions.secure (createTransport_options options)
            \<and> TransportOptions.port (createTransport_options options) = Integer 587)
       \<and> (port options = None \<and> (secure options = None \<or> secure options = Some False) \<longrightarrow>
            TransportOptions.port (createTransport_options options) = Integer 587
            \<and> \<not> TransportOptions.secure (createTransport_options options)
            \<and> requireTLS (createTransport_options options))
       \<and> (secure options = Some True \<and> port options = None \<longrightarrow>
            TransportOptions.port (createTransport_options options) = Integer 465
            \<and> TransportOptions.secure (createTransport_options options)
            \<and> \<not> requireTLS (createTransport_options options))
       \<and> (\<forall>p. port options = Some p \<longrightarrow>
            TransportOptions.port (createTransport_options options) = p)
       \<and> (\<forall>s. secure options = Some s \<longrightarrow>
            TransportOptions.secure (createTransport_options options) = s)"
proof -
  note p = createTransport_options_port [of options]
  note s = createTransport_options_secure [of options]
  note r = createTransport_options_requireTLS [of options]
  have e1: "TransportOptions.port (createTransport_options options) =
           nullish (port options) (if secure options = Some True then Integer 465 else Integer 587)"
    using p by (simp add: nullish_def)
  have e2: "TransportOptions.secure (createTransport_options options) =
           nullish (secure options) (TransportOptions.port (createTransport_options options) = Integer 465)"
    using s by (simp add: nullish_def)
  have d1: "port options = None \<and> (secure options = None \<or> secure options = Some False) \<longrightarrow>
            TransportOptions.port (createTransport_options options) = Integer 587
            \<and> \<not> TransportOptions.secure (createTransport_options options)
            \<and> requireTLS (createTransport_options options)"
    using p s r by auto
  have d2: "secure options = Some True \<and> port options = None \<longrightarrow>
            TransportOptions.port (createTransport_options options) = Integer 465
            \<and> TransportOptions.secure (createTransport_options options)
            \<and> \<not> requireTLS (createTransport_options options)"
    using p s r by auto
  have x1: "\<forall>p. port options = Some p \<longrightarrow>
            TransportOptions.port (createTransport_options options) = p"
    using p by simp
  have x2: "\<forall>s. secure options = Some s \<longrightarrow>
            TransportOptions.secure (createTransport_options options) = s"
    using s by simp
  from e1 e2 r d1 d2 x1 x2 show ?thesis by blast
qed

theorem createTransport_tls_resolution_witness:
  "TransportOptions.port (createTransport_options
      \<lparr> host = ''smtp.example.com'', port = None, secure = None, username = None,
        password = None, ignoreCert = None \<rparr>) = Integer 587
   \<and> requireTLS (createTransport_options
      \<lparr> host = ''smtp.example.com'', port = None, secure = Some False, username = None,
        password = None, ignoreCert = None \<rparr>)
   \<and> TransportOptions.port (createTransport_options
      \<lparr> host = ''smtp.example.com'', port = None, secure = Some True, username = None,
        password = None, ignoreCert = None \<rparr>) = Integer 465
   \<and> TransportOptions.port (createTransport_options
      \<lparr> host = ''smtp.example.com'', port = Some (Integer 2525), secure = Some True, username = None,
        password = None, ignoreCert = None \<rparr>) = Integer 2525
   \<and> TransportOptions.secure (createTransport_options
      \<lparr> host = ''smtp.example.com'', port = Some (Integer 2525), secure = Some True, username = None,
        password = None, ignoreCert = None \<rparr>)"
  using
    createTransport_tls_resolution [of "\<lparr> host = ''smtp.example.com'', port = None,
      secure = None, username = None, password = None, ignoreCert = None \<rparr>"]
    createTransport_tls_resolution [of "\<lparr> host = ''smtp.example.com'', port = None,
      secure = Some False, username = None, password = None, ignoreCert = None \<rparr>"]
    createTransport_tls_resolution [of "\<lparr> host = ''smtp.example.com'', port = None,
      secure = Some True, username = None, password = None, ignoreCert = None \<rparr>"]
    createTransport_tls_resolution [of "\<lparr> host = ''smtp.example.com'', port = Some (Integer 2525),
      secure = Some True, username = None, password = None, ignoreCert = None \<rparr>"]
  by (simp add: nullish_def)

text \<open>
  Claim C4. The options carry an \<^verbatim>\<open>auth\<close> record if and only if the username or the
  password is a non-empty string; then it holds the two as given. When both are empty or
  absent, \<^verbatim>\<open>auth\<close> is \<^verbatim>\<open>undefined\<close>.
\<close>

theorem createTransport_auth_iff:
  "(auth (createTransport_options options) \<noteq> None) =
     ((\<exists>u. username options = Some u \<and> u \<noteq> []) \<or> (\<exists>p. password options = Some p \<and> p \<noteq> []))
   \<and> auth (createTransport_options options) =
       (if (\<exists>u. username options = Some u \<and> u \<noteq> []) \<or> (\<exists>p. password options = Some p \<and> p \<noteq> [])
        then Some \<lparr> user = username options, pass = password options \<rparr>
        else None)"
  by (cases "username options"; cases "password options")
     (simp_all add: createTransport_options_def truthy_string_def Let_def)

theorem createTransport_auth_iff_witness:
  "auth (createTransport_options
      \<lparr> host = ''smtp.example.com'', port = None, secure = None, username = None,
        password = Some ''hunter2'', ignoreCert = None \<rparr>) =
     Some \<lparr> user = None, pass = Some ''hunter2'' \<rparr>
   \<and> auth (createTransport_options
      \<lparr> host = ''smtp.example.com'', port = None, secure = None, username = Some [],
        password = None, ignoreCert = None \<rparr>) = None"
  using
    createTransport_auth_iff [of "\<lparr> host = ''smtp.example.com'', port = None, secure = None, username = None,
        password = Some ''hunter2'', ignoreCert = None \<rparr>"]
    createTransport_auth_iff [of "\<lparr> host = ''smtp.example.com'', port = None, secure = None, username = Some [],
        password = None, ignoreCert = None \<rparr>"]
  by simp

text \<open>
  Claim C5. For every combination of port and secure, present or absent, the options never
  have implicit TLS (\<^verbatim>\<open>secure\<close>) and required STARTTLS (\<^verbatim>\<open>requireTLS\<close>) both true.
\<close>

theorem createTransport_never_both_tls_modes:
  "\<not> (TransportOptions.secure (createTransport_options options)
       \<and> requireTLS (createTransport_options options))"
  by (simp add: createTransport_options_def Let_def)

theorem createTransport_never_both_tls_modes_witness:
  "TransportOptions.secure (createTransport_options
      \<lparr> host = ''smtp.example.com'', port = Some (Integer 587), secure = Some True, username = None,
        password = None, ignoreCert = None \<rparr>)
   \<and> \<not> requireTLS (createTransport_options
      \<lparr> host = ''smtp.example.com'', port = Some (Integer 587), secure = Some True, username = None,
        password = None, ignoreCert = None \<rparr>)"
  using createTransport_never_both_tls_modes [of "\<lparr> host = ''smtp.example.com'', port = Some (Integer 587), secure = Some True, username = None,
        password = None, ignoreCert = None \<rparr>"]
  by (simp add: createTransport_options_def nullish_def)

text \<open>
  Claim C7. The four timeouts of the options (connection, greeting, socket, DNS) are
  10000 ms each, whatever the \<^verbatim>\<open>SmtpOptions\<close> are.
\<close>

theorem createTransport_timeouts:
  "connectionTimeout (createTransport_options options) = 10000
   \<and> greetingTimeout (createTransport_options options) = 10000
   \<and> socketTimeout (createTransport_options options) = 10000
   \<and> dnsTimeout (createTransport_options options) = 10000"
  by (simp add: createTransport_options_def Let_def)

theorem createTransport_timeouts_witness:
  "connectionTimeout (createTransport_options
      \<lparr> host = ''smtp.example.com'', port = None, secure = Some True, username = None,
        password = None, ignoreCert = None \<rparr>) = 10000"
  using createTransport_timeouts [of "\<lparr> host = ''smtp.example.com'', port = None, secure = Some True, username = None,
        password = None, ignoreCert = None \<rparr>"]
  by simp

subsection \<open>The life of a transport\<close>

text \<open>
  Claim C2. Every call of \<^verbatim>\<open>verifySmtp\<close> and every call of \<^verbatim>\<open>sendEmail\<close> adds one
  transport to the world and calls \<^verbatim>\<open>close\<close> on it exactly once, as the last call on
  it, whatever \<^verbatim>\<open>verify\<close> or \<^verbatim>\<open>sendMail\<close> did (resolve, reject with an error,
  throw anything else); the transports that existed before are untouched. In
  \<^verbatim>\<open>sendEmail\<close> the \<^verbatim>\<open>close\<close> follows the call of \<^verbatim>\<open>sendMail\<close> and precedes the
  return of its promise.
\<close>

theorem transport_closed_exactly_once:
  "(\<exists>t. transports (snd (verifySmtp verify_result captured_stack options w)) = transports w @ [t]
        \<and> calls t = [Verify, Close]
        \<and> count_list (calls t) Close = 1
        \<and> last (calls t) = Close)
   \<and> (\<exists>t m. transports (snd (sendEmail sendMail_result opts w)) = transports w @ [t]
        \<and> calls t = [SendMail m, Close]
        \<and> count_list (calls t) Close = 1
        \<and> last (calls t) = Close)"
proof
  show "\<exists>t. transports (snd (verifySmtp verify_result captured_stack options w)) = transports w @ [t]
        \<and> calls t = [Verify, Close]
        \<and> count_list (calls t) Close = 1
        \<and> last (calls t) = Close"
    by (simp add: verifySmtp_transports)
next
  show "\<exists>t m. transports (snd (sendEmail sendMail_result opts w)) = transports w @ [t]
        \<and> calls t = [SendMail m, Close]
        \<and> count_list (calls t) Close = 1
        \<and> last (calls t) = Close"
    by (simp add: sendEmail_transports)
qed

theorem transport_closed_exactly_once_witness:
  "map calls (transports (snd (verifySmtp (Some (NonError ''timeout'')) None
      \<lparr> host = ''smtp.example.com'', port = None, secure = None, username = None,
        password = None, ignoreCert = None \<rparr>
      \<lparr> logger = [], transports = [] \<rparr>))) = [[Verify, Close]]
   \<and> map (\<lambda>t. count_list (calls t) Close) (transports (snd (sendEmail
      (Inr (Rejected (NonError ''timeout'')) :: thrown + unit SendEmailResponse promise)
      \<lparr> from' = ''a@example.com'', to = ''b@example.com'', replyTo = None, subject = ''Hi'',
        html = ''<p>Hi</p>'', text' = ''Hi'', imageAttachments = None,
        smtp = \<lparr> host = ''smtp.example.com'', port = None, secure = None, username = None,
                 password = None, ignoreCert = None \<rparr> \<rparr>
      \<lparr> logger = [], transports = [] \<rparr>))) = [1]"
  using transport_closed_exactly_once
    [of "Some (NonError ''timeout'')" None
        "\<lparr> host = ''smtp.example.com'', port = None, secure = None, username = None,
           password = None, ignoreCert = None \<rparr>"
        "\<lparr> logger = [], transports = [] \<rparr>"
        "Inr (Rejected (NonError ''timeout'')) :: thrown + unit SendEmailResponse promise"
        "\<lparr> from' = ''a@example.com'', to = ''b@example.com'', replyTo = None, subject = ''Hi'',
          html = ''<p>Hi</p>'', text' = ''Hi'', imageAttachments = None,
          smtp = \<lparr> host = ''smtp.example.com'', port = None, secure = None, username = None,
                 password = None, ignoreCert = None \<rparr> \<rparr>"]
  by auto

subsection \<open>What verifySmtp logs and returns\<close>

lemma SerializeJSONMembers_string:
  "(k, JSON_string v) \<in> set obj \<Longrightarrow>
   (QuoteJSONString k @ '':'' @ QuoteJSONString v) \<in> set (SerializeJSONMembers obj)"
  by (induction obj rule: SerializeJSONMembers.induct) (auto split: option.splits)

lemma JSON_stringify_carries:
  assumes "(k, JSON_string v) \<in> set obj"
  shows "sublist (QuoteJSONString k @ '':'' @ QuoteJSONString v) (JSON_stringify obj)"
proof -
  from assms have "sublist (QuoteJSONString k @ '':'' @ QuoteJSONString v)
      (join '','' (SerializeJSONMembers obj))"
    by (intro sublist_join SerializeJSONMembers_string)
  also have "sublist (join '','' (SerializeJSONMembers obj)) (JSON_stringify obj)"
    unfolding JSON_stringify_def by (rule sublist_appendI)
  finally show ?thesis .
qed

lemma safeOpts_password_entry:
  "(''password'',
    JSON_string (if (\<exists>p. password options = Some p \<and> p \<noteq> []) then ''********'' else ''(none)''))
   \<in> set (safeOpts options)"
  by (cases "password options") (simp_all add: safeOpts_def truthy_string_def)

lemma safeOpts_username_entry:
  "(''username'', JSON_string (case username options of None \<Rightarrow> ''(none)'' | Some u \<Rightarrow> u))
   \<in> set (safeOpts options)"
  by (cases "username options") (simp_all add: safeOpts_def nullish_def)

lemma details_new_Error: "details (new_Error s st) = s"
  by (cases "s = []")
     (simp_all add: details_def details_parts_def new_Error_def filter_Boolean_def
        truthy_string_def)

lemma details_message_only:
  "code err = None \<Longrightarrow> errno err = None \<Longrightarrow> details err = message err"
  by (cases "message err = []")
     (simp_all add: details_def details_parts_def filter_Boolean_def truthy_string_def)

lemma details_all_three:
  "message err \<noteq> [] \<Longrightarrow> code err = Some c \<Longrightarrow> c \<noteq> [] \<Longrightarrow> errno err = Some n \<Longrightarrow>
   details err = message err @ '', code='' @ c @ '', errno='' @ Number_toString n"
  by (simp add: details_def details_parts_def filter_Boolean_def truthy_string_def)

text \<open>
  Claim C3. What \<^verbatim>\<open>verifySmtp\<close> hands to the logger does not carry the password: two
  runs whose options differ only in the (non-empty) password value make the same calls on
  the logger. The second call logs the JSON text of \<^verbatim>\<open>safeOpts\<close>; in it a present
  (non-empty) password is the fixed placeholder \<^verbatim>\<open>********\<close>, an absent (or empty)
  password is the fixed marker \<^verbatim>\<open>(none)\<close>, and an absent username is the marker
  \<^verbatim>\<open>(none)\<close>.
\<close>

theorem verifySmtp_log_redacts_password:
  "(p \<noteq> [] \<and> q \<noteq> [] \<longrightarrow>
      logger (snd (verifySmtp verify_result captured_stack (options\<lparr>password := Some p\<rparr>) w)) =
      logger (snd (verifySmtp verify_result captured_stack (options\<lparr>password := Some q\<rparr>) w)))
   \<and> (\<exists>m e. logger (snd (verifySmtp verify_result captured_stack options w)) =
          logger w @ [Log m, Debug (''SMTP options: '' @ JSON_stringify (safeOpts options)), e])
   \<and> map_of (safeOpts options) ''password'' =
        Some (JSON_string
          (if (\<exists>p. password options = Some p \<and> p \<noteq> []) then ''********'' else ''(none)''))
   \<and> map_of (safeOpts options) ''username'' =
        Some (JSON_string (case username options of None \<Rightarrow> ''(none)'' | Some u \<Rightarrow> u))
   \<and> (\<exists>m d e. logger (snd (verifySmtp verify_result captured_stack options w)) =
          logger w @ [Log m, Debug (''SMTP options: '' @ d), e]
        \<and> sublist
            (QuoteJSONString ''password'' @ '':'' @
             QuoteJSONString
               (if (\<exists>p. password options = Some p \<and> p \<noteq> []) then ''********'' else ''(none)''))
            d
        \<and> (username options = None \<longrightarrow>
             sublist (QuoteJSONString ''username'' @ '':'' @ QuoteJSONString ''(none)'') d))"
proof -
  have a: "p \<noteq> [] \<and> q \<noteq> [] \<longrightarrow>
      logger (snd (verifySmtp verify_result captured_stack (options\<lparr>password := Some p\<rparr>) w)) =
      logger (snd (verifySmtp verify_result captured_stack (options\<lparr>password := Some q\<rparr>) w))"
    by (cases verify_result) (simp_all add: verifySmtp_logger safeOpts_password)
  have b: "\<exists>m e. logger (snd (verifySmtp verify_result captured_stack options w)) =
          logger w @ [Log m, Debug (''SMTP options: '' @ JSON_stringify (safeOpts options)), e]"
    by (simp add: verifySmtp_logger)
  have c: "map_of (safeOpts options) ''password'' =
        Some (JSON_string
          (if (\<exists>p. password options = Some p \<and> p \<noteq> []) then ''********'' else ''(none)''))"
    by (cases "password options") (simp_all add: safeOpts_def truthy_string_def)
  have d: "map_of (safeOpts options) ''username'' =
        Some (JSON_string (case username options of None \<Rightarrow> ''(none)'' | Some u \<Rightarrow> u))"
    by (cases "username options") (simp_all add: safeOpts_def nullish_def)
  have e1: "sublist
            (QuoteJSONString ''password'' @ '':'' @
             QuoteJSONString
               (if (\<exists>p. password options = Some p \<and> p \<noteq> []) then ''********'' else ''(none)''))
            (JSON_stringify (safeOpts options))"
    by (rule JSON_stringify_carries) (rule safeOpts_password_entry)
  have e2: "username options = None \<longrightarrow>
             sublist (QuoteJSONString ''username'' @ '':'' @ QuoteJSONString ''(none)'')
               (JSON_stringify (safeOpts options))"
  proof
    assume "username options = None"
    with safeOpts_username_entry [of options]
    have "(''username'', JSON_string ''(none)'') \<in> set (safeOpts options)" by simp
    then show "sublist (QuoteJSONString ''username'' @ '':'' @ QuoteJSONString ''(none)'')
               (JSON_stringify (safeOpts options))"
      by (rule JSON_stringify_carries)
  qed
  from b obtain m x where lg: "logger (snd (verifySmtp verify_result captured_stack options w)) =
          logger w @ [Log m, Debug (''SMTP options: '' @ JSON_stringify (safeOpts options)), x]"
    by blast
  have e: "\<exists>m d e. logger (snd (verifySmtp verify_result captured_stack options w)) =
          logger w @ [Log m, Debug (''SMTP options: '' @ d), e]
        \<and> sublist
            (QuoteJSONString ''password'' @ '':'' @
             QuoteJSONString
               (if (\<exists>p. password options = Some p \<and> p \<noteq> []) then ''********'' else ''(none)''))
            d
        \<and> (username options = None \<longrightarrow>
             sublist (QuoteJSONString ''username'' @ '':'' @ QuoteJSONString ''(none)'') d)"
  proof (intro exI conjI)
    show "logger (snd (verifySmtp verify_result captured_stack options w)) =
          logger w @ [Log m, Debug (''SMTP options: '' @ JSON_stringify (safeOpts options)), x]"
      by (rule lg)
    show "sublist
            (QuoteJSONString ''password'' @ '':'' @
             QuoteJSONString
               (if (\<exists>p. password options = Some p \<and> p \<noteq> []) then ''********'' else ''(none)''))
            (JSON_stringify (safeOpts options))"
      by (rule e1)
    show "username options = None \<longrightarrow>
             sublist (QuoteJSONString ''username'' @ '':'' @ QuoteJSONString ''(none)'')
               (JSON_stringify (safeOpts options))"
      by (rule e2)
  qed
  from a b c d e show ?thesis by blast
qed

theorem verifySmtp_log_redacts_password_witness:
  "''hunter2'' \<noteq> [] \<and> ''swordfish'' \<noteq> []
   \<and> username \<lparr> host = ''smtp.example.com'', port = None, secure = None, username = None,
        password = None, ignoreCert = None \<rparr> = None
   \<and> logger (snd (verifySmtp None None
        (\<lparr> host = ''smtp.example.com'', port = None, secure = None, username = None,
        password = None, ignoreCert = None \<rparr>\<lparr>password := Some ''hunter2''\<rparr>)
        \<lparr> logger = [], transports = [] \<rparr>)) =
     logger (snd (verifySmtp None None
        (\<lparr> host = ''smtp.example.com'', port = None, secure = None, username = None,
        password = None, ignoreCert = None \<rparr>\<lparr>password := Some ''swordfish''\<rparr>)
        \<lparr> logger = [], transports = [] \<rparr>))
   \<and> map_of (safeOpts
        \<lparr> host = ''smtp.example.com'', port = None, secure = None, username = None,
        password = None, ignoreCert = None \<rparr>) ''username'' = Some (JSON_string ''(none)'')"
  using verifySmtp_log_redacts_password
    [where p = "''hunter2''" and q = "''swordfish''" and verify_result = None
       and captured_stack = None
       and options = "\<lparr> host = ''smtp.example.com'', port = None, secure = None, username = None,
        password = None, ignoreCert = None \<rparr>"
       and w = "\<lparr> logger = [], transports = [] \<rparr>"]
  by simp

text \<open>
  Claim C6. \<^verbatim>\<open>verifySmtp\<close> returns \<^verbatim>\<open>true\<close> exactly when \<^verbatim>\<open>transport.verify()\<close>
  resolves. When it rejects, the call throws the very value that was thrown, and before
  that the last call on the logger is \<^verbatim>\<open>error\<close>, with the stack of the error and a text
  made of a fixed head (host and port) and the details. For a thrown \<^verbatim>\<open>Error\<close> the
  details contain its message and, when it has a non-empty code, \<^verbatim>\<open>code=\<close> and the code,
  and, when it has an errno, \<^verbatim>\<open>errno=\<close> and the number; they are the message alone when
  the error has neither, and the three joined by a comma and a space when it has all. For
  any other thrown value the details are \<^verbatim>\<open>String(error)\<close>. \<^verbatim>\<open>verify\<close> is called once:
  nothing is retried.
\<close>

theorem verifySmtp_true_iff_verify_succeeds:
  "((fst (verifySmtp verify_result captured_stack options w) = Inr True) = (verify_result = None))
   \<and> (\<forall>err. verify_result = Some (ErrorInstance err) \<longrightarrow>
        fst (verifySmtp verify_result captured_stack options w) = Inl (ErrorInstance err)
        \<and> (\<exists>d. last (logger (snd (verifySmtp verify_result captured_stack options w))) =
                  Error (''SMTP verification failed for '' @ host options @ '':''
                           @ template_number (port options) @ '': '' @ d)
                        (stack err)
              \<and> sublist (message err) d
              \<and> (\<forall>c. code err = Some c \<and> c \<noteq> [] \<longrightarrow> sublist (''code='' @ c) d)
              \<and> (\<forall>n. errno err = Some n \<longrightarrow> sublist (''errno='' @ Number_toString n) d)
              \<and> (code err = None \<and> errno err = None \<longrightarrow> d = message err)
              \<and> (\<forall>c n. message err \<noteq> [] \<and> code err = Some c \<and> c \<noteq> [] \<and> errno err = Some n \<longrightarrow>
                    d = message err @ '', code='' @ c @ '', errno='' @ Number_toString n)))
   \<and> (\<forall>s. verify_result = Some (NonError s) \<longrightarrow>
        fst (verifySmtp verify_result captured_stack options w) = Inl (NonError s)
        \<and> last (logger (snd (verifySmtp verify_result captured_stack options w))) =
            Error (''SMTP verification failed for '' @ host options @ '':''
                     @ template_number (port options) @ '': '' @ s)
                  captured_stack)
   \<and> (\<exists>t. transports (snd (verifySmtp verify_result captured_stack options w)) =
            transports w @ [t]
          \<and> calls t = [Verify, Close])"
proof (intro conjI allI impI)
  show "(fst (verifySmtp verify_result captured_stack options w) = Inr True) = (verify_result = None)"
    by (cases verify_result) (simp_all add: verifySmtp_completion)
next
  fix err assume "verify_result = Some (ErrorInstance err)"
  then show "fst (verifySmtp verify_result captured_stack options w) = Inl (ErrorInstance err)"
    by (simp add: verifySmtp_completion)
next
  fix err assume v: "verify_result = Some (ErrorInstance err)"
  have l: "last (logger (snd (verifySmtp verify_result captured_stack options w))) =
             Error (''SMTP verification failed for '' @ host options @ '':''
                      @ template_number (port options) @ '': '' @ details err)
                   (stack err)"
    using v by (simp add: verifySmtp_logger as_Error_def)
  have m: "sublist (message err) (details err)"
    by (rule details_carries_message)
  have c: "\<forall>c. code err = Some c \<and> c \<noteq> [] \<longrightarrow> sublist (''code='' @ c) (details err)"
    by (blast intro: details_carries_code)
  have n: "\<forall>n. errno err = Some n \<longrightarrow> sublist (''errno='' @ Number_toString n) (details err)"
    by (blast intro: details_carries_errno)
  have o: "code err = None \<and> errno err = None \<longrightarrow> details err = message err"
    by (blast intro: details_message_only)
  have a: "\<forall>c n. message err \<noteq> [] \<and> code err = Some c \<and> c \<noteq> [] \<and> errno err = Some n \<longrightarrow>
             details err = message err @ '', code='' @ c @ '', errno='' @ Number_toString n"
    by (blast intro: details_all_three)
  from l m c n o a
  show "\<exists>d. last (logger (snd (verifySmtp verify_result captured_stack options w))) =
                  Error (''SMTP verification failed for '' @ host options @ '':''
                           @ template_number (port options) @ '': '' @ d)
                        (stack err)
              \<and> sublist (message err) d
              \<and> (\<forall>c. code err = Some c \<and> c \<noteq> [] \<longrightarrow> sublist (''code='' @ c) d)
              \<and> (\<forall>n. errno err = Some n \<longrightarrow> sublist (''errno='' @ Number_toString n) d)
              \<and> (code err = None \<and> errno err = None \<longrightarrow> d = message err)
              \<and> (\<forall>c n. message err \<noteq> [] \<and> code err = Some c \<and> c \<noteq> [] \<and> errno err = Some n \<longrightarrow>
                    d = message err @ '', code='' @ c @ '', errno='' @ Number_toString n)"
    by blast
next
  fix s assume "verify_result = Some (NonError s)"
  then show "fst (verifySmtp verify_result captured_stack options w) = Inl (NonError s)"
    by (simp add: verifySmtp_completion)
next
  fix s assume "verify_result = Some (NonError s)"
  then show "last (logger (snd (verifySmtp verify_result captured_stack options w))) =
            Error (''SMTP verification failed for '' @ host options @ '':''
                     @ template_number (port options) @ '': '' @ s)
                  captured_stack"
    by (simp add: verifySmtp_logger as_Error_def details_new_Error) (simp add: new_Error_def)
next
  show "\<exists>t. transports (snd (verifySmtp verify_result captured_stack options w)) =
            transports w @ [t]
          \<and> calls t = [Verify, Close]"
    by (simp add: verifySmtp_transports)
qed

theorem verifySmtp_true_iff_verify_succeeds_witness:
  "verifySmtp
      (Some (ErrorInstance \<lparr> message = ''Invalid login'', code = Some ''EAUTH'',
          errno = Some (Integer (- 111)), stack = Some ''Error: Invalid login'' \<rparr>))
      None
      \<lparr> host = ''smtp.example.com'', port = None, secure = None, username = None,
        password = None, ignoreCert = None \<rparr>
      \<lparr> logger = [], transports = [] \<rparr> =
     (Inl (ErrorInstance \<lparr> message = ''Invalid login'', code = Some ''EAUTH'',
          errno = Some (Integer (- 111)), stack = Some ''Error: Invalid login'' \<rparr>),
      \<lparr> logger =
          [Log ''Verifying SMTP connection to smtp.example.com:undefined (secure=undefined)'',
           Debug (''SMTP options: '' @ JSON_stringify (safeOpts
             \<lparr> host = ''smtp.example.com'', port = None, secure = None, username = None,
               password = None, ignoreCert = None \<rparr>)),
           Error ''SMTP verification failed for smtp.example.com:undefined: Invalid login, code=EAUTH, errno=-111''
             (Some ''Error: Invalid login'')],
        transports =
          [\<lparr> config = createTransport_options
               \<lparr> host = ''smtp.example.com'', port = None, secure = None, username = None,
                 password = None, ignoreCert = None \<rparr>,
             calls = [Verify, Close] \<rparr>] \<rparr>)
   \<and> last (logger (snd (verifySmtp (Some (NonError ''timeout'')) (Some ''Error: timeout'')
      \<lparr> host = ''smtp.example.com'', port = Some (Integer 587), secure = None, username = None,
        password = None, ignoreCert = None \<rparr>
      \<lparr> logger = [], transports = [] \<rparr>))) =
     Error ''SMTP verification failed for smtp.example.com:587: timeout'' (Some ''Error: timeout'')"
proof -
  let ?e = "\<lparr> message = ''Invalid login'', code = Some ''EAUTH'',
          errno = Some (Integer (- 111)), stack = Some ''Error: Invalid login'' \<rparr>"
  let ?o = "\<lparr> host = ''smtp.example.com'', port = None, secure = None, username = None,
        password = None, ignoreCert = None \<rparr>"
  let ?w = "\<lparr> logger = [], transports = [] \<rparr>"
  have h: "message ?e \<noteq> [] \<and> code ?e = Some ''EAUTH'' \<and> ''EAUTH'' \<noteq> []
           \<and> errno ?e = Some (Integer (- 111))"
    by simp
  have d1: "Number_toString (Integer (- 111)) = ''-111''"
    by code_simp
  have d2: "Number_toString (Integer 587) = ''587''"
    by code_simp
  note t1 = verifySmtp_true_iff_verify_succeeds
      [where verify_result = "Some (ErrorInstance ?e)" and captured_stack = None
         and options = ?o and w = ?w]
  note t2 = verifySmtp_true_iff_verify_succeeds
      [where verify_result = "Some (NonError ''timeout'')"
         and captured_stack = "Some ''Error: timeout''"
         and options = "?o\<lparr>port := Some (Integer 587)\<rparr>" and w = ?w]
  from t1 h have l1: "last (logger (snd (verifySmtp (Some (ErrorInstance ?e)) None ?o ?w))) =
      Error (''SMTP verification failed for '' @ host ?o @ '':'' @ template_number (port ?o)
               @ '': '' @ message ?e @ '', code='' @ ''EAUTH'' @ '', errno=''
               @ Number_toString (Integer (- 111)))
            (stack ?e)"
    by fastforce
  from t1 have r1: "fst (verifySmtp (Some (ErrorInstance ?e)) None ?o ?w) = Inl (ErrorInstance ?e)"
    by blast
  from t2 have l2: "last (logger (snd (verifySmtp (Some (NonError ''timeout''))
        (Some ''Error: timeout'') (?o\<lparr>port := Some (Integer 587)\<rparr>) ?w))) =
      Error (''SMTP verification failed for '' @ host (?o\<lparr>port := Some (Integer 587)\<rparr>) @ '':''
               @ template_number (port (?o\<lparr>port := Some (Integer 587)\<rparr>)) @ '': '' @ ''timeout'')
            (Some ''Error: timeout'')"
    by blast
  have lg: "logger (snd (verifySmtp (Some (ErrorInstance ?e)) None ?o ?w)) =
      [Log ''Verifying SMTP connection to smtp.example.com:undefined (secure=undefined)'',
       Debug (''SMTP options: '' @ JSON_stringify (safeOpts ?o)),
       last (logger (snd (verifySmtp (Some (ErrorInstance ?e)) None ?o ?w)))]"
    by (simp add: verifySmtp_logger template_number_def template_boolean_def)
  have tr: "transports (snd (verifySmtp (Some (ErrorInstance ?e)) None ?o ?w)) =
      [\<lparr> config = createTransport_options ?o, calls = [Verify, Close] \<rparr>]"
    by (simp add: verifySmtp_transports)
  have w1: "verifySmtp (Some (ErrorInstance ?e)) None ?o ?w =
     (Inl (ErrorInstance ?e),
      \<lparr> logger =
          [Log ''Verifying SMTP connection to smtp.example.com:undefined (secure=undefined)'',
           Debug (''SMTP options: '' @ JSON_stringify (safeOpts ?o)),
           Error ''SMTP verification failed for smtp.example.com:undefined: Invalid login, code=EAUTH, errno=-111''
             (Some ''Error: Invalid login'')],
        transports = [\<lparr> config = createTransport_options ?o, calls = [Verify, Close] \<rparr>] \<rparr>)"
    using r1 l1 lg tr d1
    by (cases "verifySmtp (Some (ErrorInstance ?e)) None ?o ?w")
       (simp add: template_number_def)
  from l2 d2 have w2: "last (logger (snd (verifySmtp (Some (NonError ''timeout''))
        (Some ''Error: timeout'') (?o\<lparr>port := Some (Integer 587)\<rparr>) ?w))) =
      Error ''SMTP verification failed for smtp.example.com:587: timeout'' (Some ''Error: timeout'')"
    by (simp add: template_number_def)
  from w1 w2 show ?thesis by simp
qed

subsection \<open>What sendEmail hands to the transport\<close>

text \<open>
  Claim C9. The message that \<^verbatim>\<open>sendEmail\<close> hands to \<^verbatim>\<open>sendMail\<close> has one attachment
  for each image attachment of the input, in the same order, with the same filename, the
  same path and the same cid; when \<^verbatim>\<open>imageAttachments\<close> is absent, the message has no
  attachment list.
\<close>

theorem sendEmail_attachments:
  "\<exists>t m. transports (snd (sendEmail sendMail_result opts w)) = transports w @ [t]
     \<and> calls t = [SendMail m, Close]
     \<and> (case imageAttachments opts of
          None \<Rightarrow> MailOptions.attachments m = None
        | Some xs \<Rightarrow>
            (\<exists>ys. MailOptions.attachments m = Some ys
               \<and> length ys = length xs
               \<and> (\<forall>i<length xs.
                     Attachment.filename (ys ! i) = filename (xs ! i)
                     \<and> Attachment.path (ys ! i) = path (xs ! i)
                     \<and> Attachment.cid (ys ! i) = cid (xs ! i))))"
  by (cases "imageAttachments opts") (simp_all add: sendEmail_transports)

theorem sendEmail_attachments_witness:
  "(1::nat) < length [\<lparr> filename = ''a.jpg'', path = ''/tmp/a.jpg'', cid = ''c1'' \<rparr>,
                     \<lparr> filename = ''b.jpg'', path = ''/tmp/b.jpg'', cid = ''c2'' \<rparr>]
   \<and> map calls (transports (snd (sendEmail
      (Inr (Fulfilled \<lparr> messageId = ''m1'', response = () \<rparr>))
      \<lparr> from' = ''a@example.com'', to = ''b@example.com'', replyTo = None,
        subject = ''Hi'', html = ''<p>Hi</p>'', text' = ''Hi'',
        imageAttachments = Some [\<lparr> filename = ''a.jpg'', path = ''/tmp/a.jpg'', cid = ''c1'' \<rparr>,
                                 \<lparr> filename = ''b.jpg'', path = ''/tmp/b.jpg'', cid = ''c2'' \<rparr>],
        smtp = \<lparr> host = ''smtp.example.com'', port = None, secure = None, username = None,
                 password = None, ignoreCert = None \<rparr> \<rparr>
      \<lparr> logger = [], transports = [] \<rparr>))) =
     [[SendMail \<lparr> MailOptions.to = ''b@example.com'', MailOptions.from' = ''a@example.com'',
                  MailOptions.subject = ''Hi'', MailOptions.html = ''<p>Hi</p>'',
                  MailOptions.text' = ''Hi'',
                  MailOptions.attachments =
                    Some [\<lparr> Attachment.filename = ''a.jpg'', Attachment.path = ''/tmp/a.jpg'',
                            Attachment.cid = ''c1'' \<rparr>,
                          \<lparr> Attachment.filename = ''b.jpg'', Attachment.path = ''/tmp/b.jpg'',
                            Attachment.cid = ''c2'' \<rparr>] \<rparr>,
       Close]]"
  using sendEmail_attachments
    [where sendMail_result = "(Inr (Fulfilled \<lparr> messageId = ''m1'', response = () \<rparr>))"
       and opts = "\<lparr> from' = ''a@example.com'', to = ''b@example.com'', replyTo = None,
        subject = ''Hi'', html = ''<p>Hi</p>'', text' = ''Hi'',
        imageAttachments = Some [\<lparr> filename = ''a.jpg'', path = ''/tmp/a.jpg'', cid = ''c1'' \<rparr>,
                                 \<lparr> filename = ''b.jpg'', path = ''/tmp/b.jpg'', cid = ''c2'' \<rparr>],
        smtp = \<lparr> host = ''smtp.example.com'', port = None, secure = None, username = None,
                 password = None, ignoreCert = None \<rparr> \<rparr>"
       and w = "\<lparr> logger = [], transports = [] \<rparr>"]
  by (simp add: sendEmail_transports)

text \<open>
  Claim C10. The message handed to \<^verbatim>\<open>sendMail\<close> is made of \<^verbatim>\<open>to\<close>, \<^verbatim>\<open>from\<close>,
  \<^verbatim>\<open>subject\<close>, \<^verbatim>\<open>html\<close>, \<^verbatim>\<open>text\<close> and \<^verbatim>\<open>attachments\<close>, taken from the input;
  \<^verbatim>\<open>replyTo\<close> is not forwarded: changing it changes neither the result nor anything
  that \<^verbatim>\<open>sendEmail\<close> does.
\<close>

theorem sendEmail_ignores_replyTo:
  "sendEmail sendMail_result (opts\<lparr>replyTo := r\<rparr>) w = sendEmail sendMail_result opts w
   \<and> (\<exists>t a. transports (snd (sendEmail sendMail_result opts w)) = transports w @ [t]
         \<and> calls t =
             [SendMail \<lparr> MailOptions.to = to opts,
                         MailOptions.from' = from' opts,
                         MailOptions.subject = subject opts,
                         MailOptions.html = html opts,
                         MailOptions.text' = text' opts,
                         MailOptions.attachments = a \<rparr>,
              Close])"
  by (simp add: sendEmail_transports) (simp add: sendEmail_def)

theorem sendEmail_ignores_replyTo_witness:
  "sendEmail
      (Inr (Fulfilled \<lparr> messageId = ''m1'', response = () \<rparr>))
      \<lparr> from' = ''a@example.com'', to = ''b@example.com'', replyTo = Some ''r@example.com'',
        subject = ''Hi'', html = ''<p>Hi</p>'', text' = ''Hi'',
        imageAttachments = None,
        smtp = \<lparr> host = ''smtp.example.com'', port = None, secure = None, username = None,
                 password = None, ignoreCert = None \<rparr> \<rparr>
      \<lparr> logger = [], transports = [] \<rparr> =
   sendEmail
      (Inr (Fulfilled \<lparr> messageId = ''m1'', response = () \<rparr>))
      \<lparr> from' = ''a@example.com'', to = ''b@example.com'', replyTo = None,
        subject = ''Hi'', html = ''<p>Hi</p>'', text' = ''Hi'',
        imageAttachments = None,
        smtp = \<lparr> host = ''smtp.example.com'', port = None, secure = None, username = None,
                 password = None, ignoreCert = None \<rparr> \<rparr>
      \<lparr> logger = [], transports = [] \<rparr>"
  using sendEmail_ignores_replyTo
    [where sendMail_result = "(Inr (Fulfilled \<lparr> messageId = ''m1'', response = () \<rparr>))"
       and r = "Some ''r@example.com''"
       and opts = "\<lparr> from' = ''a@example.com'', to = ''b@example.com'', replyTo = None,
        subject = ''Hi'', html = ''<p>Hi</p>'', text' = ''Hi'',
        imageAttachments = None,
        smtp = \<lparr> host = ''smtp.example.com'', port = None, secure = None, username = None,
                 password = None, ignoreCert = None \<rparr> \<rparr>"
       and w = "\<lparr> logger = [], transports = [] \<rparr>"]
  by simp

subsection \<open>The element that renderEmail renders\<close>

text \<open>
  \<^verbatim>\<open>render\<close> picks the template function named by the tag of the request and gives it
  the data of the request with \<^verbatim>\<open>customTemplate\<close> replaced by that of the request.
\<close>

lemma render_template:
  "(case render request of
      TestEmail props \<Rightarrow> template request = TEST_EMAIL
    | WelcomeEmail props \<Rightarrow> template request = WELCOME
    | AlbumInviteEmail props \<Rightarrow> template request = ALBUM_INVITE
    | AlbumUpdateEmail props \<Rightarrow> template request = ALBUM_UPDATE)"
  by (cases request) simp_all

lemma render_props:
  "render (TestEmailRequest d1 c) = TestEmail (d1\<lparr>customTemplate := Some c\<rparr>)"
  "render (WelcomeRequest d2 c) = WelcomeEmail (d2\<lparr>customTemplate := Some c\<rparr>)"
  "render (AlbumInviteRequest d3 c) = AlbumInviteEmail (d3\<lparr>customTemplate := Some c\<rparr>)"
  "render (AlbumUpdateRequest d4 c) = AlbumUpdateEmail (d4\<lparr>customTemplate := Some c\<rparr>)"
  by simp_all

end
